theory Spec2Isabelle
  imports
    Main
    "HOL-Library.List_Lexorder"
    "HOL-Library.Product_Lexorder"
    "HOL-Library.Multiset"
begin

section \<open>Strings\<close>

text \<open>
  A Python \<open>str\<close> is a sequence of Unicode code points, and the program compares, tests
  and sorts its strings code point by code point. A string is therefore a list of code
  points (natural numbers); the empty list is the empty string, which is the only falsy
  string. The literals of the source are listed here once, with their code points.
\<close>

type_synonym pystr = "nat list"

definition s_ID :: pystr where \<comment> \<open>"ID"\<close>
  "s_ID = [73, 68]"

definition s_title :: pystr where \<comment> \<open>U+30BF U+30A4 U+30C8 U+30EB, the Title column\<close>
  "s_title = [12479, 12452, 12488, 12523]"

definition s_content :: pystr where \<comment> \<open>U+5185 U+5BB9, the Content column\<close>
  "s_content = [20869, 23481]"

definition s_due :: pystr where \<comment> \<open>U+671F U+65E5, the DueDate column\<close>
  "s_due = [26399, 26085]"

definition s_priority :: pystr where \<comment> \<open>U+91CD U+8981 U+5EA6, the Priority column\<close>
  "s_priority = [37325, 35201, 24230]"

definition s_created :: pystr where \<comment> \<open>U+4F5C U+6210 U+65E5 U+6642, the CreatedAt column\<close>
  "s_created = [20316, 25104, 26085, 26178]"

definition s_status :: pystr where \<comment> \<open>U+30B9 U+30C6 U+30FC U+30BF U+30B9, the Status column\<close>
  "s_status = [12473, 12486, 12540, 12479, 12473]"

definition s_completed :: pystr where \<comment> \<open>U+5B8C U+4E86, the status value "completed"\<close>
  "s_completed = [23436, 20102]"

definition s_high :: pystr where \<comment> \<open>U+9AD8, priority "high"\<close>
  "s_high = [39640]"

definition s_medium :: pystr where \<comment> \<open>U+4E2D, priority "medium"\<close>
  "s_medium = [20013]"

definition s_low :: pystr where \<comment> \<open>U+4F4E, priority "low"\<close>
  "s_low = [20302]"

definition s_all :: pystr where \<comment> \<open>"all"\<close>
  "s_all = [97, 108, 108]"

definition s_sentinel :: pystr where \<comment> \<open>"9999-12-31"\<close>
  "s_sentinel = [57, 57, 57, 57, 45, 49, 50, 45, 51, 49]"

definition s_sort_priority :: pystr where \<comment> \<open>"priority", a value of the sort parameter\<close>
  "s_sort_priority = [112, 114, 105, 111, 114, 105, 116, 121]"

definition s_sort_due_date :: pystr where \<comment> \<open>"due_date", a value of the sort parameter\<close>
  "s_sort_due_date = [100, 117, 101, 95, 100, 97, 116, 101]"

text \<open>The seven header cells written by \<open>get_or_create_spreadsheet\<close> (range A1:G1).\<close>

definition HEADER :: "pystr list" where
  "HEADER = [s_ID, s_title, s_content, s_due, s_priority, s_created, s_status]"

text \<open>The five header cells appended to a worksheet that had to be created (line 128).\<close>

definition LEGACY_HEADER :: "pystr list" where
  "LEGACY_HEADER = [s_ID, s_title, s_content, s_due, s_created]"

section \<open>Data model\<close>

text \<open>A task as \<open>get_all_todos\<close> builds it: a dictionary with these eight keys.\<close>

record todo =
  todo_id :: pystr
  row :: nat
  title :: pystr
  content :: pystr
  due_date :: pystr
  priority :: pystr
  created_at :: pystr
  status :: pystr

text \<open>The dictionary \<open>add_todo\<close> returns: no \<open>row\<close> and no \<open>status\<close> key.\<close>

record added =
  added_id :: pystr
  added_title :: pystr
  added_content :: pystr
  added_due_date :: pystr
  added_priority :: pystr
  added_created_at :: pystr

text \<open>
  Exceptions. \<open>ConfigError\<close>, \<open>NotFoundError\<close> and \<open>AccessError\<close> are the three plain
  \<open>Exception\<close>s that \<open>get_or_create_spreadsheet\<close> raises with its own messages;
  \<open>AuthError\<close> is a failure to load the service credentials; \<open>SpreadsheetNotFound\<close> and
  \<open>APIError\<close> are the client library's exceptions; \<open>ValueError\<close> is what \<open>max\<close> of an
  empty sequence and \<open>int\<close> of a malformed string raise; \<open>OtherError\<close> stands for any
  other exception of a backing-store call (a transport failure, say).
\<close>

datatype error =
  AuthError | ConfigError | NotFoundError | AccessError
  | SpreadsheetNotFound | APIError | IndexError | ValueError | OtherError

section \<open>The backing store\<close>

text \<open>
  What the program reaches through the client library. \<open>todos_sheet\<close> holds the rows of
  the worksheet named "Todos" (\<open>None\<close>: no such worksheet), each row the list of its
  cells. \<open>write_requests\<close> records every write the program sends, in order.
  \<open>pending_faults\<close> is the fate of the coming calls to the store: each call consumes one
  entry, \<open>Some e\<close> makes that call raise \<open>e\<close>, \<open>None\<close> (or an exhausted list) lets it
  through.
\<close>

datatype request =
  AddWorksheet
  | AppendRow "pystr list"
  | Update nat "pystr list" \<comment> \<open>first column (0 is A) and the cells written to row 1\<close>

record world =
  credentials_ok :: bool
  spreadsheet_id :: "pystr option"
  todos_sheet :: "pystr list list option"
  write_requests :: "request list"
  pending_faults :: "error option list"

definition next_fault :: "world \<Rightarrow> error option \<times> world" where
  "next_fault w =
     (case pending_faults w of
        [] \<Rightarrow> (None, w)
      | f # fs \<Rightarrow> (f, w\<lparr>pending_faults := fs\<rparr>))"

text \<open>A reading call on the worksheet: it fails when the worksheet is gone.\<close>

definition sheet_read :: "(pystr list list \<Rightarrow> 'a) \<Rightarrow> world \<Rightarrow> (error + 'a) \<times> world" where
  "sheet_read f w =
     (case next_fault w of
        (Some e, w') \<Rightarrow> (Inl e, w')
      | (None, w') \<Rightarrow>
          (case todos_sheet w' of
             None \<Rightarrow> (Inl APIError, w')
           | Some rows \<Rightarrow> (Inr (f rows), w')))"

text \<open>A writing call on the worksheet; the request is recorded whether or not it succeeds.\<close>

definition sheet_write ::
  "request \<Rightarrow> (pystr list list \<Rightarrow> pystr list list) \<Rightarrow> world \<Rightarrow> error option \<times> world" where
  "sheet_write wr f w =
     (case next_fault (w\<lparr>write_requests := write_requests w @ [wr]\<rparr>) of
        (Some e, w') \<Rightarrow> (Some e, w')
      | (None, w') \<Rightarrow>
          (case todos_sheet w' of
             None \<Rightarrow> (Some APIError, w')
           | Some rows \<Rightarrow> (None, w'\<lparr>todos_sheet := Some (f rows)\<rparr>)))"

text \<open>The store omits the empty cells at the end of a row it returns.\<close>

definition rstrip_empty :: "pystr list \<Rightarrow> pystr list" where
  "rstrip_empty r = rev (dropWhile (\<lambda>c. c = []) (rev r))"

text \<open>\<open>worksheet.row_values(1)\<close>: the first row, or the empty list on an empty sheet.\<close>

definition first_row :: "pystr list list \<Rightarrow> pystr list" where
  "first_row rows = (case rows of [] \<Rightarrow> [] | r # _ \<Rightarrow> rstrip_empty r)"

definition row_values1 :: "world \<Rightarrow> (error + pystr list) \<times> world" where
  "row_values1 w = sheet_read first_row w"

text \<open>
  \<open>worksheet.get_all_values()\<close>: the rows as they are held here. Whether the client
  library pads short rows with empty cells is left open: the rows of \<open>todos_sheet\<close> may
  have any lengths, and what is proved of a read is proved for all of them.
\<close>

definition get_all_values :: "world \<Rightarrow> (error + pystr list list) \<times> world" where
  "get_all_values w = sheet_read (\<lambda>rows. rows) w"

text \<open>
  Writing cells \<open>vals\<close> into a row from column \<open>c\<close> on: a row that is too short is
  filled with empty cells up to column \<open>c\<close>.
\<close>

definition write_cells :: "nat \<Rightarrow> pystr list \<Rightarrow> pystr list \<Rightarrow> pystr list" where
  "write_cells c vals r =
     take c (r @ replicate (c - length r) []) @ vals @ drop (c + length vals) r"

definition write_row1 :: "nat \<Rightarrow> pystr list \<Rightarrow> pystr list list \<Rightarrow> pystr list list" where
  "write_row1 c vals rows =
     (case rows of
        [] \<Rightarrow> [write_cells c vals []]
      | r # rs \<Rightarrow> write_cells c vals r # rs)"

text \<open>\<open>worksheet.update("A1:G1", ...)\<close>, \<open>update("E1", ...)\<close> and \<open>update("G1", ...)\<close>.\<close>

definition update_row1 :: "nat \<Rightarrow> pystr list \<Rightarrow> world \<Rightarrow> error option \<times> world" where
  "update_row1 c vals w = sheet_write (Update c vals) (write_row1 c vals) w"

text \<open>
  \<open>worksheet.append_row(row)\<close>: the row goes below the rows that are there; on a
  worksheet without rows it becomes row 1.
\<close>

definition append_row :: "pystr list \<Rightarrow> world \<Rightarrow> error option \<times> world" where
  "append_row r w = sheet_write (AppendRow r) (\<lambda>rows. rows @ [r]) w"

section \<open>Process state\<close>

text \<open>
  The module's global variables. The two handle caches only ever matter through being
  \<open>None\<close> or not; \<open>printed\<close> is what the process has printed, one entry per warning,
  holding the exception the warning reports. The type \<open>'c\<close> is what \<open>_todos_cache\<close>
  holds: the task list as a value where only the data matters (\<open>vstate\<close>), a reference
  to a list object where the identity of the list matters (the heap model below).
\<close>

record 'c state =
  sheets_client :: bool
  spreadsheet_cache :: bool
  worksheet_cache :: bool
  todos_cache :: "'c option"
  cache_timestamp :: "int option"
  printed :: "error list"

type_synonym vstate = "todo list state"

definition init_state :: "'c state" where
  "init_state =
     \<lparr>sheets_client = False, spreadsheet_cache = False, worksheet_cache = False,
      todos_cache = None, cache_timestamp = None, printed = []\<rparr>"

text \<open>Time is counted in microseconds, the resolution of \<open>datetime\<close>.\<close>

definition CACHE_DURATION :: int where
  "CACHE_DURATION = 10000000"

section \<open>Connection and schema resolution\<close>

definition get_sheets_client :: "world \<Rightarrow> 'c state \<Rightarrow> error option \<times> 'c state" where
  "get_sheets_client w st =
     (if \<not> sheets_client st then
        (if credentials_ok w then (None, st\<lparr>sheets_client := True\<rparr>)
         else (Some AuthError, st))
      else (None, st))"

text \<open>\<open>client.open_by_key\<close> inside its \<open>try\<close> (lines 106 to 119).\<close>

definition open_by_key :: "world \<Rightarrow> error option \<times> world" where
  "open_by_key w =
     (case next_fault w of
        (None, w') \<Rightarrow> (None, w')
      | (Some e, w') \<Rightarrow>
          (if e = SpreadsheetNotFound then (Some NotFoundError, w')
           else (Some AccessError, w')))"

text \<open>
  Lines 122 to 128: look the worksheet up; when there is none, create it and append the
  five-cell header. Only the lookup's \<open>WorksheetNotFound\<close> is caught.
\<close>

definition worksheet_or_create :: "world \<Rightarrow> error option \<times> world" where
  "worksheet_or_create w =
     (case next_fault w of
        (Some e, w1) \<Rightarrow> (Some e, w1)
      | (None, w1) \<Rightarrow>
          (case todos_sheet w1 of
             Some rows \<Rightarrow> (None, w1)
           | None \<Rightarrow>
               (case next_fault (w1\<lparr>write_requests := write_requests w1 @ [AddWorksheet]\<rparr>) of
                  (Some e, w2) \<Rightarrow> (Some e, w2)
                | (None, w2) \<Rightarrow> append_row LEGACY_HEADER (w2\<lparr>todos_sheet := Some []\<rparr>))))"

text \<open>The body of the \<open>try\<close> at lines 131 to 160, branch for branch.\<close>

definition repair_header :: "world \<Rightarrow> error option \<times> world" where
  "repair_header w =
     (case row_values1 w of
        (Inl e, w1) \<Rightarrow> (Some e, w1)
      | (Inr header_row, w1) \<Rightarrow>
          (if header_row = [] \<or> length header_row = 0 then update_row1 0 HEADER w1
           else if header_row ! 0 \<noteq> s_ID \<or> length header_row < 7 then
             (if length header_row < 7 then
                (if length header_row < 5 then update_row1 0 HEADER w1
                 else if length header_row < 6 then update_row1 0 HEADER w1
                 else
                   (case update_row1 6 [s_status] w1 of
                      (Some e, w2) \<Rightarrow> (Some e, w2)
                    | (None, w2) \<Rightarrow>
                        (if length header_row < 5 \<or> header_row ! 4 \<noteq> s_priority
                         then update_row1 4 [s_priority] w2
                         else (None, w2))))
              else
                (if header_row ! 0 \<noteq> s_ID then update_row1 0 HEADER w1
                 else
                   (case (if length header_row < 5 \<or> header_row ! 4 \<noteq> s_priority
                          then update_row1 4 [s_priority] w1
                          else (None, w1)) of
                      (Some e, w2) \<Rightarrow> (Some e, w2)
                    | (None, w2) \<Rightarrow>
                        (if length header_row < 7 \<or> header_row ! 6 \<noteq> s_status
                         then update_row1 6 [s_status] w2
                         else (None, w2)))))
           else (None, w1)))"

text \<open>
  The whole \<open>try\<close> statement, lines 131 to 174: an \<open>IndexError\<close> or \<open>APIError\<close> of the
  body is answered by writing the full header; when that write fails too, the two single
  cells are tried, and whatever they raise is dropped. Any other exception leaves the
  function.
\<close>

definition ensure_header :: "world \<Rightarrow> error option \<times> world" where
  "ensure_header w =
     (case repair_header w of
        (None, w1) \<Rightarrow> (None, w1)
      | (Some e, w1) \<Rightarrow>
          (if e = IndexError \<or> e = APIError then
             (case update_row1 0 HEADER w1 of
                (None, w2) \<Rightarrow> (None, w2)
              | (Some e2, w2) \<Rightarrow>
                  (case update_row1 4 [s_priority] w2 of
                     (e3, w3) \<Rightarrow>
                       (case update_row1 6 [s_status] w3 of
                          (e4, w4) \<Rightarrow> (None, w4))))
           else (Some e, w1)))"

definition get_or_create_spreadsheet ::
  "world \<Rightarrow> 'c state \<Rightarrow> error option \<times> world \<times> 'c state" where
  "get_or_create_spreadsheet w st =
     (if spreadsheet_cache st \<and> worksheet_cache st then (None, w, st)
      else
        (case get_sheets_client w st of
           (Some e, st1) \<Rightarrow> (Some e, w, st1)
         | (None, st1) \<Rightarrow>
             (if spreadsheet_id w = None \<or> spreadsheet_id w = Some [] then (Some ConfigError, w, st1)
              else
                (case open_by_key w of
                   (Some e, w1) \<Rightarrow> (Some e, w1, st1)
                 | (None, w1) \<Rightarrow>
                     (case worksheet_or_create w1 of
                        (Some e, w2) \<Rightarrow> (Some e, w2, st1)
                      | (None, w2) \<Rightarrow>
                          (case ensure_header w2 of
                             (Some e, w3) \<Rightarrow> (Some e, w3, st1)
                           | (None, w3) \<Rightarrow>
                               (None, w3,
                                st1\<lparr>spreadsheet_cache := True, worksheet_cache := True\<rparr>)))))))"

definition clear_cache :: "'c state \<Rightarrow> 'c state" where
  "clear_cache st =
     st\<lparr>todos_cache := None, cache_timestamp := None,
        spreadsheet_cache := False, worksheet_cache := False\<rparr>"

section \<open>Reading\<close>

text \<open>A cell of a row by position, with the default the source uses for a short row.\<close>

definition cell :: "pystr list \<Rightarrow> nat \<Rightarrow> pystr \<Rightarrow> pystr" where
  "cell r k d = (if length r > k then r ! k else d)"

definition make_todo :: "nat \<Rightarrow> pystr list \<Rightarrow> todo" where
  "make_todo i r =
     \<lparr>todo_id = (if length r > 0 \<and> r ! 0 \<noteq> [] then r ! 0 else []),
      row = i,
      title = cell r 1 [],
      content = cell r 2 [],
      due_date = cell r 3 [],
      priority = cell r 4 s_medium,
      created_at = cell r 5 [],
      status = cell r 6 []\<rparr>"

text \<open>The loop of lines 221 to 244 over \<open>enumerate(all_values[1:], start=2)\<close>.\<close>

fun build_todos :: "nat \<Rightarrow> pystr list list \<Rightarrow> todo list" where
  "build_todos i [] = []"
| "build_todos i (r # rs) =
     (if r = [] \<or> length r = 0 \<or> r ! 0 = [] then build_todos (Suc i) rs
      else make_todo i r # build_todos (Suc i) rs)"

definition cache_fresh :: "int \<Rightarrow> 'c state \<Rightarrow> bool" where
  "cache_fresh now st =
     (case todos_cache st of
        None \<Rightarrow> False
      | Some c \<Rightarrow>
          (case cache_timestamp st of
             None \<Rightarrow> False
           | Some ts \<Rightarrow> now - ts < CACHE_DURATION))"

text \<open>
  \<open>get_all_todos\<close>, with the clock reading \<open>now\<close> as an argument. The result is the
  returned list as a value; which list object is returned is the subject of the heap
  model further down.
\<close>

definition get_all_todos ::
  "int \<Rightarrow> world \<Rightarrow> vstate \<Rightarrow> (error + todo list) \<times> world \<times> vstate" where
  "get_all_todos now w st =
     (if cache_fresh now st then (Inr (the (todos_cache st)), w, st)
      else
        (case get_or_create_spreadsheet w st of
           (Some e, w1, st1) \<Rightarrow> (Inl e, w1, st1)
         | (None, w1, st1) \<Rightarrow>
             (case get_all_values w1 of
                (Inl e, w2) \<Rightarrow>
                  (if e = IndexError \<or> e = APIError
                   then (Inr [], w2, st1\<lparr>printed := printed st1 @ [e]\<rparr>)
                   else (Inl e, w2, st1))
              | (Inr all_values, w2) \<Rightarrow>
                  (if all_values = [] \<or> length all_values \<le> 1 then (Inr [], w2, st1)
                   else
                     (let todos = build_todos 2 (tl all_values)
                      in (Inr todos, w2,
                          st1\<lparr>todos_cache := Some todos, cache_timestamp := Some now\<rparr>))))))"

text \<open>
  \<open>get_all_todos_filtered\<close>. The argument is \<open>None\<close> for Python's \<open>None\<close> and \<open>Some s\<close>
  for a string.
\<close>

definition filter_status :: "pystr option \<Rightarrow> todo list \<Rightarrow> todo list" where
  "filter_status status_filter todos =
     (if status_filter = None
      then filter (\<lambda>t. status t = [] \<or> status t \<noteq> s_completed) todos
      else if status_filter = Some s_completed
      then filter (\<lambda>t. status t = s_completed) todos
      else todos)"

definition get_all_todos_filtered ::
  "pystr option \<Rightarrow> int \<Rightarrow> world \<Rightarrow> vstate
     \<Rightarrow> (error + todo list) \<times> world \<times> vstate" where
  "get_all_todos_filtered status_filter now w st =
     (case get_all_todos now w st of
        (Inl e, w1, st1) \<Rightarrow> (Inl e, w1, st1)
      | (Inr todos, w1, st1) \<Rightarrow> (Inr (filter_status status_filter todos), w1, st1))"

section \<open>Creating a task\<close>

text \<open>
  \<open>str.isdigit\<close> and \<open>int\<close> consult the Unicode character database, which is not part
  of the program. The database is an argument \<open>ucd\<close> of the functions that use it: it
  gives each code point its class, \<open>Decimal d\<close> for a decimal digit of value \<open>d\<close> (these
  are the characters \<open>int\<close> accepts), \<open>Digit\<close> for a character that \<open>isdigit\<close> accepts
  and \<open>int\<close> rejects (a superscript two, say), \<open>NoDigit\<close> for the rest.
\<close>

datatype uclass = Decimal nat | Digit | NoDigit

definition isdigit :: "(nat \<Rightarrow> uclass) \<Rightarrow> pystr \<Rightarrow> bool" where
  "isdigit ucd s = (s \<noteq> [] \<and> list_all (\<lambda>c. ucd c \<noteq> NoDigit) s)"

text \<open>
  \<open>int(s)\<close> on the strings that reach it, those that pass \<open>isdigit\<close>: the value in base
  ten when every character is a decimal digit, \<open>ValueError\<close> otherwise. (Signs, blanks
  and underscores, which \<open>int\<close> also reads, cannot occur in a string that passes
  \<open>isdigit\<close>. Python integers are unbounded; the interpreter's optional limit on the
  length of a converted string is not modelled.)
\<close>

fun int_digits :: "(nat \<Rightarrow> uclass) \<Rightarrow> nat \<Rightarrow> pystr \<Rightarrow> error + int" where
  "int_digits ucd acc [] = Inr (int acc)"
| "int_digits ucd acc (c # cs) =
     (case ucd c of
        Decimal d \<Rightarrow> int_digits ucd (10 * acc + d) cs
      | Digit \<Rightarrow> Inl ValueError
      | NoDigit \<Rightarrow> Inl ValueError)"

definition int_of_str :: "(nat \<Rightarrow> uclass) \<Rightarrow> pystr \<Rightarrow> error + int" where
  "int_of_str ucd s = (if s = [] then Inl ValueError else int_digits ucd 0 s)"

text \<open>\<open>str(n)\<close>: decimal digits, most significant first, a minus sign for a negative.\<close>

fun str_nat :: "nat \<Rightarrow> pystr" where
  "str_nat n = (if n < 10 then [48 + n] else str_nat (n div 10) @ [48 + n mod 10])"

declare str_nat.simps [simp del]

definition py_str :: "int \<Rightarrow> pystr" where
  "py_str i = (if i < 0 then 45 # str_nat (nat (- i)) else str_nat (nat i))"

text \<open>
  \<open>max(int(todo["id"]) for todo in todos if todo["id"].isdigit())\<close>: the generator is
  consumed from the left, \<open>best\<close> is the largest value so far; \<open>max\<close> of no value at all
  raises \<open>ValueError\<close>, and so does a failing \<open>int\<close>.
\<close>

fun max_numeric_id :: "(nat \<Rightarrow> uclass) \<Rightarrow> int option \<Rightarrow> todo list \<Rightarrow> error + int" where
  "max_numeric_id ucd best [] = (case best of None \<Rightarrow> Inl ValueError | Some m \<Rightarrow> Inr m)"
| "max_numeric_id ucd best (t # ts) =
     (if isdigit ucd (todo_id t) then
        (case int_of_str ucd (todo_id t) of
           Inl e \<Rightarrow> Inl e
         | Inr n \<Rightarrow>
             max_numeric_id ucd
               (Some (case best of None \<Rightarrow> n | Some m \<Rightarrow> if n > m then n else m)) ts)
      else max_numeric_id ucd best ts)"

text \<open>Lines 273 to 277.\<close>

definition new_id :: "(nat \<Rightarrow> uclass) \<Rightarrow> todo list \<Rightarrow> error + pystr" where
  "new_id ucd todos =
     (if todos \<noteq> [] then
        (case max_numeric_id ucd None todos of
           Inl e \<Rightarrow> Inl e
         | Inr max_id \<Rightarrow> Inr (py_str (max_id + 1)))
      else Inr [49])"

text \<open>
  \<open>add_todo\<close>. \<open>stamp\<close> is the formatted clock reading of line 280, \<open>now\<close> the clock
  reading inside \<open>get_all_todos\<close>.
\<close>

definition add_todo ::
  "(nat \<Rightarrow> uclass) \<Rightarrow> pystr \<Rightarrow> pystr \<Rightarrow> pystr \<Rightarrow> pystr \<Rightarrow> pystr \<Rightarrow> int \<Rightarrow> world \<Rightarrow> vstate
     \<Rightarrow> (error + added) \<times> world \<times> vstate" where
  "add_todo ucd a_title a_content a_due_date a_priority stamp now w st =
     (case get_or_create_spreadsheet w st of
        (Some e, w1, st1) \<Rightarrow> (Inl e, w1, st1)
      | (None, w1, st1) \<Rightarrow>
          (case get_all_todos_filtered (Some s_all) now w1 st1 of
             (Inl e, w2, st2) \<Rightarrow> (Inl e, w2, st2)
           | (Inr todos, w2, st2) \<Rightarrow>
               (case new_id ucd todos of
                  Inl e \<Rightarrow> (Inl e, w2, st2)
                | Inr nid \<Rightarrow>
                    (case append_row
                            [nid, a_title, a_content, a_due_date, a_priority, stamp, []] w2 of
                       (Some e, w3) \<Rightarrow> (Inl e, w3, st2)
                     | (None, w3) \<Rightarrow>
                         (Inr \<lparr>added_id = nid, added_title = a_title,
                               added_content = a_content, added_due_date = a_due_date,
                               added_priority = a_priority, added_created_at = stamp\<rparr>,
                          w3, clear_cache st2)))))"

section \<open>Sorting in the listing view\<close>

text \<open>The dictionary \<open>priority_order\<close> of \<open>index\<close> (line 66) and the two sort keys.\<close>

definition priority_order :: "pystr \<Rightarrow> int option" where
  "priority_order p =
     (if p = s_high then Some 3
      else if p = s_medium then Some 2
      else if p = s_low then Some 1
      else None)"

definition priority_rank :: "todo \<Rightarrow> int" where
  "priority_rank x = (case priority_order (priority x) of Some n \<Rightarrow> n | None \<Rightarrow> 2)"

definition due_or_sentinel :: "todo \<Rightarrow> pystr" where
  "due_or_sentinel x = (if due_date x = [] then s_sentinel else due_date x)"

text \<open>
  Lines 68 to 73. Python's \<open>list.sort\<close> is stable and compares the key tuples
  lexicographically, strings by code point; with \<open>reverse=True\<close> it sorts the reversed
  list and reverses the result, so equal keys keep their order there too.
\<close>

definition sort_todos :: "pystr \<Rightarrow> todo list \<Rightarrow> todo list" where
  "sort_todos sort_by todos =
     (if sort_by = s_sort_priority
      then rev (sort_key (\<lambda>x. (priority_rank x, due_date x)) (rev todos))
      else if sort_by = s_sort_due_date
      then sort_key (\<lambda>x. (due_or_sentinel x, priority_rank x)) todos
      else todos)"

section \<open>The list objects of the read path\<close>

text \<open>
  Lists and dictionaries are objects, and \<open>_todos_cache\<close> holds a reference to a list of
  references to dictionaries. Where it matters which object a caller gets, the read path
  is modelled over a heap of such objects; \<open>next_ref\<close> is the next unused reference.
\<close>

type_synonym ref = nat

record heap =
  list_objs :: "ref \<Rightarrow> ref list option"
  dict_objs :: "ref \<Rightarrow> todo option"
  next_ref :: ref

definition empty_heap :: heap where
  "empty_heap = \<lparr>list_objs = (\<lambda>r. None), dict_objs = (\<lambda>r. None), next_ref = 0\<rparr>"

text \<open>A new list object, and a new dictionary for a task.\<close>

definition new_list :: "ref list \<Rightarrow> heap \<Rightarrow> ref \<times> heap" where
  "new_list items h =
     (next_ref h,
      h\<lparr>list_objs := (list_objs h)(next_ref h := Some items), next_ref := Suc (next_ref h)\<rparr>)"

definition new_dict :: "todo \<Rightarrow> heap \<Rightarrow> ref \<times> heap" where
  "new_dict t h =
     (next_ref h,
      h\<lparr>dict_objs := (dict_objs h)(next_ref h := Some t), next_ref := Suc (next_ref h)\<rparr>)"

text \<open>One dictionary for each task, in order.\<close>

fun new_dicts :: "todo list \<Rightarrow> heap \<Rightarrow> ref list \<times> heap" where
  "new_dicts [] h = ([], h)"
| "new_dicts (t # ts) h =
     (case new_dict t h of
        (d, h1) \<Rightarrow> (case new_dicts ts h1 of (ds, h2) \<Rightarrow> (d # ds, h2)))"

text \<open>The references a list holds, and the tasks they stand for.\<close>

definition list_items :: "heap \<Rightarrow> ref \<Rightarrow> ref list" where
  "list_items h r = (case list_objs h r of None \<Rightarrow> [] | Some items \<Rightarrow> items)"

definition list_value :: "heap \<Rightarrow> ref \<Rightarrow> todo list" where
  "list_value h r = List.map_filter (dict_objs h) (list_items h r)"

text \<open>\<open>list.copy()\<close>: a new list object that holds the same references.\<close>

definition list_copy :: "ref \<Rightarrow> heap \<Rightarrow> ref \<times> heap" where
  "list_copy r h = new_list (list_items h r) h"

text \<open>
  \<open>get_all_todos\<close> over the heap: line 206 returns a copy of the cached list; lines 247
  to 250 store the list just built in \<open>_todos_cache\<close> and return that same list; the two
  early returns of the empty list return a new list object each. (The dictionaries are
  allocated before the list that holds them; the order plays no part.)
\<close>

definition get_all_todos_obj ::
  "int \<Rightarrow> world \<Rightarrow> ref state \<Rightarrow> heap \<Rightarrow> (error + ref) \<times> world \<times> ref state \<times> heap" where
  "get_all_todos_obj now w st h =
     (if cache_fresh now st then
        (case list_copy (the (todos_cache st)) h of (r, h1) \<Rightarrow> (Inr r, w, st, h1))
      else
        (case get_or_create_spreadsheet w st of
           (Some e, w1, st1) \<Rightarrow> (Inl e, w1, st1, h)
         | (None, w1, st1) \<Rightarrow>
             (case get_all_values w1 of
                (Inl e, w2) \<Rightarrow>
                  (if e = IndexError \<or> e = APIError
                   then (case new_list [] h of
                           (r, h1) \<Rightarrow> (Inr r, w2, st1\<lparr>printed := printed st1 @ [e]\<rparr>, h1))
                   else (Inl e, w2, st1, h))
              | (Inr all_values, w2) \<Rightarrow>
                  (if all_values = [] \<or> length all_values \<le> 1
                   then (case new_list [] h of (r, h1) \<Rightarrow> (Inr r, w2, st1, h1))
                   else
                     (case new_dicts (build_todos 2 (tl all_values)) h of
                        (ds, h1) \<Rightarrow>
                          (case new_list ds h1 of
                             (r, h2) \<Rightarrow>
                               (Inr r, w2,
                                st1\<lparr>todos_cache := Some r, cache_timestamp := Some now\<rparr>,
                                h2)))))))"

text \<open>
  \<open>get_all_todos_filtered\<close> over the heap: the two list comprehensions build a new list
  of the same dictionaries, the last branch returns the list it got.
\<close>

definition filter_refs :: "(todo \<Rightarrow> bool) \<Rightarrow> heap \<Rightarrow> ref list \<Rightarrow> ref list" where
  "filter_refs P h ds = filter (\<lambda>d. case dict_objs h d of None \<Rightarrow> False | Some t \<Rightarrow> P t) ds"

definition get_all_todos_filtered_obj ::
  "pystr option \<Rightarrow> int \<Rightarrow> world \<Rightarrow> ref state \<Rightarrow> heap
     \<Rightarrow> (error + ref) \<times> world \<times> ref state \<times> heap" where
  "get_all_todos_filtered_obj status_filter now w st h =
     (case get_all_todos_obj now w st h of
        (Inl e, w1, st1, h1) \<Rightarrow> (Inl e, w1, st1, h1)
      | (Inr todos, w1, st1, h1) \<Rightarrow>
          (if status_filter = None then
             (case new_list
                     (filter_refs (\<lambda>t. status t = [] \<or> status t \<noteq> s_completed) h1
                        (list_items h1 todos)) h1 of
                (r, h2) \<Rightarrow> (Inr r, w1, st1, h2))
           else if status_filter = Some s_completed then
             (case new_list
                     (filter_refs (\<lambda>t. status t = s_completed) h1 (list_items h1 todos)) h1 of
                (r, h2) \<Rightarrow> (Inr r, w1, st1, h2))
           else (Inr todos, w1, st1, h1)))"

text \<open>
  What a caller can do to the list it got: \<open>todos.sort(...)\<close> as in \<open>index\<close> (lines 68
  to 73), which sorts the list object in place, and an assignment to the title of one
  of its dictionaries.
\<close>

definition deref :: "heap \<Rightarrow> ref \<Rightarrow> todo" where
  "deref h d = the (dict_objs h d)"

definition list_sort_obj :: "pystr \<Rightarrow> ref \<Rightarrow> heap \<Rightarrow> heap" where
  "list_sort_obj sort_by r h =
     (if sort_by = s_sort_priority then
        h\<lparr>list_objs := (list_objs h)
             (r := Some (rev (sort_key (\<lambda>d. (priority_rank (deref h d), due_date (deref h d)))
                               (rev (list_items h r)))))\<rparr>
      else if sort_by = s_sort_due_date then
        h\<lparr>list_objs := (list_objs h)
             (r := Some (sort_key (\<lambda>d. (due_or_sentinel (deref h d), priority_rank (deref h d)))
                          (list_items h r)))\<rparr>
      else h)"

definition dict_set_title :: "ref \<Rightarrow> pystr \<Rightarrow> heap \<Rightarrow> heap" where
  "dict_set_title d v h =
     (case dict_objs h d of
        None \<Rightarrow> h
      | Some t \<Rightarrow> h\<lparr>dict_objs := (dict_objs h)(d := Some (t\<lparr>title := v\<rparr>))\<rparr>)"

section \<open>Notions used in the statements\<close>

text \<open>
  \<open>same_data w w'\<close>: when \<open>w\<close> has the worksheet, \<open>w'\<close> has it too, with the same rows
  below the first, and with a first row if \<open>w\<close> had one.
\<close>

definition same_data :: "world \<Rightarrow> world \<Rightarrow> bool" where
  "same_data w w' =
     (case todos_sheet w of
        None \<Rightarrow> True
      | Some rows \<Rightarrow>
          (case todos_sheet w' of
             None \<Rightarrow> False
           | Some rows' \<Rightarrow> tl rows' = tl rows \<and> (rows \<noteq> [] \<longrightarrow> rows' \<noteq> [])))"

text \<open>
  \<open>cache_consistent w st\<close>: the cached task list, if there is one, is what the rows of
  the worksheet give. The process only ever stores such a list; the store can drift from
  it only by being edited from outside.
\<close>

definition cache_consistent :: "world \<Rightarrow> vstate \<Rightarrow> bool" where
  "cache_consistent w st =
     (case todos_cache st of
        None \<Rightarrow> True
      | Some c \<Rightarrow>
          (case todos_sheet w of
             None \<Rightarrow> False
           | Some rows \<Rightarrow> c = build_todos 2 (tl rows)))"



text \<open>
  The order of the sort keys of the due-date sort: the due date, the sentinel standing in
  for an empty one, then the rank of the priority, both ascending.
\<close>

definition due_key_le :: "todo \<Rightarrow> todo \<Rightarrow> bool" where
  "due_key_le a b =
     (due_or_sentinel a < due_or_sentinel b
      \<or> (due_or_sentinel a = due_or_sentinel b \<and> priority_rank a \<le> priority_rank b))"


text \<open>
  \<open>run_adds\<close> performs \<open>add_todo\<close> for each request in turn, on the store and process
  state the one before has left: a failed add leaves the process running. It gives the
  results in order, and the store and the process state after the last add.
  \<open>assigned_ids\<close> are the ids of the adds that succeeded.
\<close>

type_synonym add_args = "pystr \<times> pystr \<times> pystr \<times> pystr \<times> pystr \<times> int"

fun run_adds ::
  "(nat \<Rightarrow> uclass) \<Rightarrow> add_args list \<Rightarrow> world \<Rightarrow> vstate
     \<Rightarrow> (error + added) list \<times> world \<times> vstate" where
  "run_adds ucd [] w st = ([], w, st)"
| "run_adds ucd ((a_title, a_content, a_due_date, a_priority, stamp, now) # rest) w st =
     (case add_todo ucd a_title a_content a_due_date a_priority stamp now w st of
        (res, w1, st1) \<Rightarrow>
          (case run_adds ucd rest w1 st1 of
             (results, w2, st2) \<Rightarrow> (res # results, w2, st2)))"

fun assigned_ids :: "(error + added) list \<Rightarrow> pystr list" where
  "assigned_ids [] = []"
| "assigned_ids (Inl e # rs) = assigned_ids rs"
| "assigned_ids (Inr a # rs) = added_id a # assigned_ids rs"



definition no_data_rows :: "world \<Rightarrow> bool" where
  "no_data_rows w = (case todos_sheet w of None \<Rightarrow> True | Some rows \<Rightarrow> length rows \<le> 1)"

text \<open>
  Schema resolution can end with handles to a worksheet that still has no row in one way
  only: a call of the \<open>try\<close> body at lines 131 to 160 fails with \<open>IndexError\<close> or
  \<open>APIError\<close>, and the three writes of the handler at lines 161 to 174, the next three
  calls, fail as well. \<open>handler_fails fs\<close>: the fault schedule \<open>fs\<close> starts with such
  four failures. \<open>header_at_risk fs\<close>: they occur somewhere in \<open>fs\<close>.
\<close>

definition handler_fails :: "error option list \<Rightarrow> bool" where
  "handler_fails fs =
     (case fs of
        Some e # Some a # Some b # Some c # rest \<Rightarrow> e = IndexError \<or> e = APIError
      | _ \<Rightarrow> False)"

primrec header_at_risk :: "error option list \<Rightarrow> bool" where
  "header_at_risk [] = False"
| "header_at_risk (f # fs) = (handler_fails (f # fs) \<or> header_at_risk fs)"






text \<open>
  The process state over values that a process state over the heap stands for, and the
  condition that the cached list and its dictionaries are allocated objects.
\<close>

definition abs_state :: "heap \<Rightarrow> ref state \<Rightarrow> vstate" where
  "abs_state h st =
     \<lparr>sheets_client = sheets_client st, spreadsheet_cache = spreadsheet_cache st,
      worksheet_cache = worksheet_cache st,
      todos_cache = map_option (list_value h) (todos_cache st),
      cache_timestamp = cache_timestamp st, printed = printed st\<rparr>"

definition heap_ok :: "heap \<Rightarrow> ref state \<Rightarrow> bool" where
  "heap_ok h st =
     (case todos_cache st of
        None \<Rightarrow> True
      | Some r \<Rightarrow> r < next_ref h \<and> list_all (\<lambda>d. d < next_ref h) (list_items h r))"

text \<open>
  Two things a caller may do between two reads: read with the filter "all", sort the list
  it got in place, as \<open>index\<close> does, and read again; or read, retitle the first task of
  the list it got, and read again. Each gives the tasks of the first list as they were
  returned and the tasks of the second read.
\<close>

definition sort_then_reread ::
  "pystr \<Rightarrow> int \<Rightarrow> int \<Rightarrow> world \<Rightarrow> ref state \<Rightarrow> heap \<Rightarrow> (todo list \<times> todo list) option" where
  "sort_then_reread sort_by t0 t1 w st h =
     (case get_all_todos_filtered_obj (Some s_all) t0 w st h of
        (Inl e, w1, st1, h1) \<Rightarrow> None
      | (Inr r, w1, st1, h1) \<Rightarrow>
          (case get_all_todos_obj t1 w1 st1 (list_sort_obj sort_by r h1) of
             (Inl e, w2, st2, h2) \<Rightarrow> None
           | (Inr r2, w2, st2, h2) \<Rightarrow> Some (list_value h1 r, list_value h2 r2)))"

definition retitle_then_reread ::
  "pystr \<Rightarrow> int \<Rightarrow> int \<Rightarrow> world \<Rightarrow> ref state \<Rightarrow> heap \<Rightarrow> (todo list \<times> todo list) option" where
  "retitle_then_reread v t0 t1 w st h =
     (case get_all_todos_obj t0 w st h of
        (Inl e, w1, st1, h1) \<Rightarrow> None
      | (Inr r, w1, st1, h1) \<Rightarrow>
          (case list_items h1 r of
             [] \<Rightarrow> None
           | d # ds \<Rightarrow>
               (case get_all_todos_obj t1 w1 st1 (dict_set_title d v h1) of
                  (Inl e, w2, st2, h2) \<Rightarrow> None
                | (Inr r2, w2, st2, h2) \<Rightarrow> Some (list_value h1 r, list_value h2 r2))))"

section \<open>Example stores\<close>

text \<open>
  The ASCII part of the character database, for examples whose strings are ASCII: the
  digits 0 to 9 are decimal digits, and no other ASCII character is a digit.
\<close>

definition ascii_ucd :: "nat \<Rightarrow> uclass" where
  "ascii_ucd c = (if 48 \<le> c \<and> c \<le> 57 then Decimal (c - 48) else NoDigit)"

text \<open>A store with credentials, an identifier, the given worksheet and no failing call.\<close>

definition quiet_world :: "pystr list list option \<Rightarrow> world" where
  "quiet_world sheet =
     \<lparr>credentials_ok = True, spreadsheet_id = Some [120], todos_sheet = sheet,
      write_requests = [], pending_faults = []\<rparr>"

text \<open>
  A worksheet with the correct header and four rows below it: a task whose id is "abc"
  and whose priority is "urgent", a row with an empty id cell, a completed task with id
  "7", and a two-cell row with id "8".
\<close>

definition example_rows :: "pystr list list" where
  "example_rows =
     [HEADER,
      [[97, 98, 99], [116], [], [], [117, 114, 103, 101, 110, 116], [50], []],
      [[], [116]],
      [[55], [117], [], [], s_high, [50], s_completed],
      [[56], [118]]]"

text \<open>The process state after a first read of that worksheet at time 0.\<close>

definition example_state :: vstate where
  "example_state =
     \<lparr>sheets_client = True, spreadsheet_cache = True, worksheet_cache = True,
      todos_cache = Some (build_todos 2 (tl example_rows)), cache_timestamp = Some 0,
      printed = []\<rparr>"

text \<open>A store without the configured identifier.\<close>

definition unconfigured_world :: world where
  "unconfigured_world = (quiet_world (Some example_rows))\<lparr>spreadsheet_id := None\<rparr>"

text \<open>
  A store whose fourth call fails with \<open>APIError\<close>: in a fresh process the first three
  calls are those of schema resolution, the fourth is \<open>get_all_values\<close>.
\<close>

definition flaky_world :: world where
  "flaky_world =
     (quiet_world (Some example_rows))\<lparr>pending_faults := [None, None, None, Some APIError]\<rparr>"


text \<open>A worksheet whose only task has the id "abc".\<close>

definition nonnumeric_rows :: "pystr list list" where
  "nonnumeric_rows =
     [HEADER, [[97, 98, 99], [116], [], [], s_medium, [50], []]]"

text \<open>
  Two stores with a header row only: one whose Title cell reads "X", one with the six
  cells of the schema before the Status column.
\<close>

definition renamed_title_world :: world where
  "renamed_title_world =
     quiet_world (Some [[s_ID, [88], s_content, s_due, s_priority, s_created, s_status]])"

definition no_status_world :: world where
  "no_status_world =
     quiet_world (Some [[s_ID, s_title, s_content, s_due, s_priority, s_created]])"

text \<open>Two tasks due on 2025-01-10, the first of high, the second of low priority.\<close>

definition tie_tasks :: "todo list" where
  "tie_tasks =
     [\<lparr>todo_id = [49], row = 2, title = [97], content = [], due_date = [50, 48, 50, 53, 45, 48, 49, 45, 49, 48],
       priority = s_high, created_at = [], status = []\<rparr>,
      \<lparr>todo_id = [50], row = 3, title = [98], content = [], due_date = [50, 48, 50, 53, 45, 48, 49, 45, 49, 48],
       priority = s_low, created_at = [], status = []\<rparr>]"

text \<open>Three tasks: no due date and high, due on 2025-01-10 and low, no due date and low.\<close>

definition dated_tasks :: "todo list" where
  "dated_tasks =
     [\<lparr>todo_id = [49], row = 2, title = [97], content = [], due_date = [],
       priority = s_high, created_at = [], status = []\<rparr>,
      \<lparr>todo_id = [50], row = 3, title = [98], content = [],
       due_date = [50, 48, 50, 53, 45, 48, 49, 45, 49, 48],
       priority = s_low, created_at = [], status = []\<rparr>,
      \<lparr>todo_id = [51], row = 4, title = [99], content = [], due_date = [],
       priority = s_low, created_at = [], status = []\<rparr>]"

text \<open>
  A store whose worksheet has no row at all, and the state of a process that resolved the
  store earlier and has its handles cached. Two requests to add a task.
\<close>

definition wiped_world :: world where
  "wiped_world = quiet_world (Some [])"

definition resolved_state :: vstate where
  "resolved_state =
     init_state\<lparr>sheets_client := True, spreadsheet_cache := True, worksheet_cache := True\<rparr>"

definition two_adds :: "add_args list" where
  "two_adds = [([97], [], [], s_medium, [50], 0), ([98], [], [], s_medium, [51], 20000000)]"

text \<open>
  A worksheet with one task of id "5", in a store whose ninth call fails with \<open>APIError\<close>:
  in a fresh process the first add makes five calls, and the fourth call of the second
  add, the ninth in all, is its \<open>get_all_values\<close>.
\<close>

definition id5_rows :: "pystr list list" where
  "id5_rows = [HEADER, [[53], [116], [], [], s_medium, [50], []]]"

definition read_fault_world :: world where
  "read_fault_world =
     (quiet_world (Some id5_rows))
       \<lparr>pending_faults := [None, None, None, None, None, None, None, None, Some APIError]\<rparr>"

text \<open>
  The same worksheet under another fault schedule, and three requests. In a fresh process
  the first add makes five calls. In the second add the read of the header row, the
  eighth call, fails with \<open>APIError\<close>, which the handler answers by writing the header,
  and the fetch of the rows, the tenth call, fails with an exception that is not caught.
  The third add finds the handles cached and makes two calls.
\<close>

definition faulty_world :: world where
  "faulty_world =
     (quiet_world (Some id5_rows))
       \<lparr>pending_faults := [None, None, None, None, None,
                           None, None, Some APIError, None, Some OtherError]\<rparr>"

definition three_adds :: "add_args list" where
  "three_adds =
     [([97], [], [], s_medium, [50], 0), ([98], [], [], s_medium, [51], 20000000),
      ([99], [], [], s_medium, [52], 40000000)]"

text \<open>A store whose worksheet has the header row and nothing else.\<close>

definition header_only_world :: world where
  "header_only_world = quiet_world (Some [HEADER])"

text \<open>
  The process state and the heap after a first read of the example worksheet at time 0,
  in a fresh process with an empty heap: the cache is warm.
\<close>

definition warm_state :: "ref state" where
  "warm_state = fst (snd (snd (get_all_todos_obj 0 (quiet_world (Some example_rows)) init_state empty_heap)))"

definition warm_heap :: heap where
  "warm_heap = snd (snd (snd (get_all_todos_obj 0 (quiet_world (Some example_rows)) init_state empty_heap)))"

section \<open>Unfolding sets for evaluation\<close>

lemmas string_defs =
  s_ID_def s_title_def s_content_def s_due_def s_priority_def s_created_def s_status_def
  s_completed_def s_high_def s_medium_def s_low_def s_all_def s_sentinel_def
  s_sort_priority_def s_sort_due_date_def HEADER_def LEGACY_HEADER_def

lemmas store_defs =
  next_fault_def sheet_read_def sheet_write_def rstrip_empty_def first_row_def
  row_values1_def get_all_values_def write_cells_def write_row1_def update_row1_def
  append_row_def

lemmas resolve_defs =
  get_sheets_client_def open_by_key_def worksheet_or_create_def repair_header_def
  ensure_header_def get_or_create_spreadsheet_def clear_cache_def

lemmas read_defs =
  cell_def make_todo_def cache_fresh_def get_all_todos_def filter_status_def
  get_all_todos_filtered_def Let_def

lemmas example_defs =
  example_rows_def example_state_def quiet_world_def init_state_def
  unconfigured_world_def flaky_world_def nonnumeric_rows_def renamed_title_world_def
  no_status_world_def

lemmas add_defs =
  isdigit_def int_of_str_def py_str_def new_id_def add_todo_def ascii_ucd_def

lemmas eval_defs = example_defs string_defs store_defs resolve_defs read_defs

lemmas add_eval_defs = two_adds_def wiped_world_def resolved_state_def id5_rows_def
  read_fault_world_def three_adds_def faulty_world_def eval_defs add_defs

section \<open>Schema resolution keeps the data rows\<close>

lemma same_data_refl: "same_data w w"
  by (simp add: same_data_def split: option.splits)

lemma same_data_trans: "same_data w1 w2 \<Longrightarrow> same_data w2 w3 \<Longrightarrow> same_data w1 w3"
  by (auto simp: same_data_def split: option.splits)

lemma same_data_eq: "todos_sheet w' = todos_sheet w \<Longrightarrow> same_data w w'"
  by (simp add: same_data_def split: option.splits)

lemma next_fault_sheet: "next_fault w = (f, w') \<Longrightarrow> todos_sheet w' = todos_sheet w"
  by (auto simp: next_fault_def split: list.splits)

lemma next_fault_quiet: "pending_faults w = [] \<Longrightarrow> next_fault w = (None, w)"
  by (simp add: next_fault_def)

lemma sheet_read_sheet: "sheet_read f w = (r, w') \<Longrightarrow> todos_sheet w' = todos_sheet w"
  by (auto simp: sheet_read_def split: prod.splits option.splits dest: next_fault_sheet)

lemma update_row1_same_data: "update_row1 c vals w = (r, w') \<Longrightarrow> same_data w w'"
  by (auto simp: update_row1_def sheet_write_def same_data_def write_row1_def
      split: prod.splits option.splits list.splits dest!: next_fault_sheet)

lemma repair_header_same_data: "repair_header w = (r, w') \<Longrightarrow> same_data w w'"
  unfolding repair_header_def row_values1_def
  by (auto split: prod.splits sum.splits option.splits if_splits
      dest!: sheet_read_sheet update_row1_same_data
      intro: same_data_trans same_data_eq)

lemma ensure_header_same_data: "ensure_header w = (r, w') \<Longrightarrow> same_data w w'"
  unfolding ensure_header_def
  by (auto split: prod.splits option.splits if_splits
      dest!: repair_header_same_data update_row1_same_data intro: same_data_trans)

lemma worksheet_or_create_same_data: "worksheet_or_create w = (r, w') \<Longrightarrow> same_data w w'"
  unfolding worksheet_or_create_def
  by (auto split: prod.splits option.splits if_splits simp: same_data_def
      dest!: next_fault_sheet)

lemma open_by_key_sheet: "open_by_key w = (r, w') \<Longrightarrow> todos_sheet w' = todos_sheet w"
  by (auto simp: open_by_key_def split: prod.splits option.splits if_splits
      dest: next_fault_sheet)

lemma get_or_create_same_data:
  "get_or_create_spreadsheet w st = (r, w', st') \<Longrightarrow> same_data w w'"
  unfolding get_or_create_spreadsheet_def
  by (auto split: prod.splits option.splits if_splits
      dest!: open_by_key_sheet worksheet_or_create_same_data ensure_header_same_data
      intro: same_data_trans same_data_eq same_data_refl)

section \<open>What a read returns\<close>

lemma get_all_values_sheet: "get_all_values w = (r, w') \<Longrightarrow> todos_sheet w' = todos_sheet w"
  by (auto simp: get_all_values_def dest: sheet_read_sheet)

lemma get_all_values_Inr:
  "get_all_values w = (Inr rows, w') \<Longrightarrow> todos_sheet w' = Some rows \<and> todos_sheet w = Some rows"
  by (auto simp: get_all_values_def sheet_read_def split: prod.splits option.splits
      dest: next_fault_sheet)

lemma get_all_todos_fetch:
  assumes "get_all_todos now w st = (Inr ts, w', st')" and "\<not> cache_fresh now st"
  shows "same_data w w'
         \<and> (ts = [] \<or> (\<exists>rows. todos_sheet w' = Some rows \<and> ts = build_todos 2 (tl rows)))"
proof -
  obtain r1 w1 st1 where g: "get_or_create_spreadsheet w st = (r1, w1, st1)"
    by (cases "get_or_create_spreadsheet w st") auto
  obtain r2 w2 where v: "get_all_values w1 = (r2, w2)"
    by (cases "get_all_values w1") auto
  have sd: "same_data w w2"
    using same_data_trans[OF get_or_create_same_data[OF g]
        same_data_eq[OF get_all_values_sheet[OF v]]] .
  from assms g v have w': "w' = w2"
    and ts: "ts = [] \<or> (\<exists>rows. r2 = Inr rows \<and> ts = build_todos 2 (tl rows))"
    by (auto simp: get_all_todos_def Let_def split: option.splits sum.splits if_splits)
  from ts v
  have "ts = [] \<or> (\<exists>rows. todos_sheet w2 = Some rows \<and> ts = build_todos 2 (tl rows))"
    by (auto dest: get_all_values_Inr)
  with sd w' show ?thesis by simp
qed

lemma get_all_todos_rows:
  assumes "get_all_todos now w st = (Inr ts, w', st')" and "cache_consistent w st"
  shows "ts = [] \<or> (\<exists>rows. todos_sheet w' = Some rows \<and> ts = build_todos 2 (tl rows))"
proof (cases "cache_fresh now st")
  case True
  with assms show ?thesis
    by (auto simp: get_all_todos_def cache_fresh_def cache_consistent_def
        split: option.splits)
next
  case False
  with assms(1) show ?thesis by (simp add: get_all_todos_fetch)
qed

lemma build_todos_mem:
  "t \<in> set (build_todos i rs) \<Longrightarrow>
     \<exists>k<length rs. row t = i + k \<and> rs ! k \<noteq> [] \<and> rs ! k ! 0 \<noteq> []
                   \<and> t = make_todo (i + k) (rs ! k)"
proof (induction rs arbitrary: i)
  case Nil
  then show ?case by simp
next
  case (Cons r rs)
  show ?case
  proof (cases "t = make_todo i r \<and> r \<noteq> [] \<and> r ! 0 \<noteq> []")
    case True
    then have "row t = i + 0 \<and> (r # rs) ! 0 \<noteq> [] \<and> (r # rs) ! 0 ! 0 \<noteq> []
               \<and> t = make_todo (i + 0) ((r # rs) ! 0)"
      by (simp add: make_todo_def)
    then show ?thesis by blast
  next
    case False
    with Cons.prems have "t \<in> set (build_todos (Suc i) rs)"
      by (auto split: if_splits)
    from Cons.IH[OF this] obtain k where "k < length rs" "row t = Suc i + k"
      "rs ! k \<noteq> []" "rs ! k ! 0 \<noteq> []" "t = make_todo (Suc i + k) (rs ! k)"
      by blast
    then have "Suc k < length (r # rs) \<and> row t = i + Suc k \<and> (r # rs) ! Suc k \<noteq> []
               \<and> (r # rs) ! Suc k ! 0 \<noteq> [] \<and> t = make_todo (i + Suc k) ((r # rs) ! Suc k)"
      by simp
    then show ?thesis by blast
  qed
qed

lemma filter_status_subset: "set (filter_status sf ts) \<subseteq> set ts"
  by (auto simp: filter_status_def)

lemma get_all_todos_filtered_Inr:
  "get_all_todos_filtered sf now w st = (Inr ts, w', st') \<Longrightarrow>
     \<exists>ts0. get_all_todos now w st = (Inr ts0, w', st') \<and> ts = filter_status sf ts0"
  by (auto simp: get_all_todos_filtered_def split: prod.splits sum.splits)

lemma read_task_from_row:
  assumes "get_all_todos now w st = (Inr ts, w', st')
           \<or> get_all_todos_filtered sf now w st = (Inr ts, w', st')"
    and "cache_consistent w st" and "todos_sheet w' = Some rows" and "t \<in> set ts"
  shows "2 \<le> row t \<and> row t \<le> length rows \<and> rows ! (row t - 1) \<noteq> []
         \<and> rows ! (row t - 1) ! 0 \<noteq> [] \<and> t = make_todo (row t) (rows ! (row t - 1))"
proof -
  from assms(1) obtain ts0
    where g: "get_all_todos now w st = (Inr ts0, w', st')" and sub: "set ts \<subseteq> set ts0"
    using get_all_todos_filtered_Inr filter_status_subset by blast
  from sub assms(4) have t0: "t \<in> set ts0" by blast
  with get_all_todos_rows[OF g assms(2)] assms(3)
  have "t \<in> set (build_todos 2 (tl rows))"
    by auto
  from build_todos_mem[OF this] obtain k where k: "k < length (tl rows)" "row t = 2 + k"
    "tl rows ! k \<noteq> []" "tl rows ! k ! 0 \<noteq> []" "t = make_todo (2 + k) (tl rows ! k)"
    by blast
  from k(1) have "tl rows ! k = rows ! Suc k" by (simp add: nth_tl)
  with k show ?thesis by auto
qed

lemma example_read:
  "get_all_todos 0 (quiet_world (Some example_rows)) init_state
     = (Inr (build_todos 2 (tl example_rows)), quiet_world (Some example_rows), example_state)"
  by (simp add: eval_defs)

lemma example_consistent: "cache_consistent (quiet_world (Some example_rows)) init_state"
  by (simp add: cache_consistent_def init_state_def)

lemma example_sheet: "todos_sheet (quiet_world (Some example_rows)) = Some example_rows"
  by (simp add: quiet_world_def)

lemma example_read_all:
  "get_all_todos_filtered (Some s_all) 0 (quiet_world (Some example_rows)) init_state
     = (Inr (build_todos 2 (tl example_rows)), quiet_world (Some example_rows), example_state)"
    by (simp add: get_all_todos_filtered_def example_read filter_status_def
        s_all_def s_completed_def)

section \<open>Rows with an empty id\<close>

text \<open>
  Claim C3 says that a row whose id cell is empty or is a non-numeric string is left out of
  every read. The read path tests the id cell for emptiness only: in the example
  worksheet the row with id "abc", which is not a digit string, is returned by
  \<open>get_all_todos\<close> together with the rows of ids "7" and "8".
\<close>

theorem nonnumeric_id_is_read:
  "map todo_id (projr (fst (get_all_todos 0 (quiet_world (Some example_rows)) init_state)))
     = [[97, 98, 99], [55], [56]]
   \<and> \<not> isdigit ascii_ucd [97, 98, 99]"
  by (simp add: eval_defs isdigit_def ascii_ucd_def)

text \<open>
  Claim C3, amended: for a store that the cache (if any) agrees with, every task returned
  by a read, \<open>get_all_todos\<close> or \<open>get_all_todos_filtered\<close> with any filter, comes from a
  row of the worksheet below the header that has cells and a non-empty id cell, and
  carries that cell as its id; so a row without cells or with an empty id cell is left
  out of every read. Whether the id is numeric plays no part.
\<close>

theorem empty_id_rows_excluded:
  assumes "get_all_todos now w st = (Inr ts, w', st')
           \<or> get_all_todos_filtered status_filter now w st = (Inr ts, w', st')"
    and "cache_consistent w st" and "todos_sheet w' = Some rows"
  shows "(\<forall>t\<in>set ts. 2 \<le> row t \<and> row t \<le> length rows \<and> rows ! (row t - 1) \<noteq> []
            \<and> todo_id t = rows ! (row t - 1) ! 0 \<and> todo_id t \<noteq> [])
         \<and> (\<forall>n. 2 \<le> n \<and> n \<le> length rows
                \<and> (rows ! (n - 1) = [] \<or> rows ! (n - 1) ! 0 = [])
              \<longrightarrow> (\<forall>t\<in>set ts. row t \<noteq> n))"
proof -
  have a: "2 \<le> row t \<and> row t \<le> length rows \<and> rows ! (row t - 1) \<noteq> []
            \<and> todo_id t = rows ! (row t - 1) ! 0 \<and> todo_id t \<noteq> []" if "t \<in> set ts" for t
  proof -
    from read_task_from_row[OF assms that]
    have r: "2 \<le> row t" "row t \<le> length rows" "rows ! (row t - 1) \<noteq> []"
      "rows ! (row t - 1) ! 0 \<noteq> []" "t = make_todo (row t) (rows ! (row t - 1))"
      by simp_all
    from r(5) have "todo_id t = todo_id (make_todo (row t) (rows ! (row t - 1)))" by simp
    with r(3,4) have "todo_id t = rows ! (row t - 1) ! 0" by (simp add: make_todo_def)
    with r show ?thesis by simp
  qed
  have b: "row t \<noteq> n" if "t \<in> set ts"
    and "rows ! (n - 1) = [] \<or> rows ! (n - 1) ! 0 = []" for t n
    using a[OF that(1)] that(2) by auto
  from a b show ?thesis by blast
qed

theorem empty_id_rows_excluded_witness:
  "get_all_todos 0 (quiet_world (Some example_rows)) init_state
     = (Inr (build_todos 2 (tl example_rows)), quiet_world (Some example_rows), example_state)
   \<and> cache_consistent (quiet_world (Some example_rows)) init_state
   \<and> todos_sheet (quiet_world (Some example_rows)) = Some example_rows
   \<and> example_rows ! (3 - 1) ! 0 = []
   \<and> list_all (\<lambda>t. row t \<noteq> 3 \<and> todo_id t \<noteq> []) (build_todos 2 (tl example_rows))"
proof -
  have h4: "example_rows ! (3 - 1) ! 0 = []" "(2::nat) \<le> 3" "3 \<le> length example_rows"
    by (simp_all add: example_rows_def)
  from empty_id_rows_excluded[OF disjI1[OF example_read] example_consistent example_sheet] h4
  have "\<forall>t\<in>set (build_todos 2 (tl example_rows)). row t \<noteq> 3 \<and> todo_id t \<noteq> []"
    by blast
  then have "list_all (\<lambda>t. row t \<noteq> 3 \<and> todo_id t \<noteq> []) (build_todos 2 (tl example_rows))"
    unfolding list_all_iff .
  with example_read example_consistent example_sheet h4(1) show ?thesis by (simp only:)
qed

section \<open>The priority of a task read\<close>

text \<open>
  Claim C7 says that the priority of every task read is one of high, medium and low, the
  default medium standing in for a missing and for a malformed cell. A priority cell that
  is present is passed on as it is: the example row with the priority cell "urgent" is
  read with the priority "urgent", which is none of the three values.
\<close>

theorem malformed_priority_is_read:
  "map priority (projr (fst (get_all_todos 0 (quiet_world (Some example_rows)) init_state)))
     = [[117, 114, 103, 101, 110, 116], s_high, s_medium]
   \<and> [117, 114, 103, 101, 110, 116] \<noteq> s_high
   \<and> [117, 114, 103, 101, 110, 116] \<noteq> s_medium
   \<and> [117, 114, 103, 101, 110, 116] \<noteq> s_low"
  by (simp add: eval_defs)

text \<open>
  Claim C7, amended: for a store that the cache (if any) agrees with, the priority of
  every task that \<open>get_all_todos\<close> returns is medium when the task's row has no fifth
  cell, and is the content of the fifth cell, unchanged, when the row has one.
\<close>

theorem priority_cell_or_default:
  assumes "get_all_todos now w st = (Inr ts, w', st')"
    and "cache_consistent w st" and "todos_sheet w' = Some rows"
  shows "\<forall>t\<in>set ts. 2 \<le> row t \<and> row t \<le> length rows
           \<and> priority t = (if length (rows ! (row t - 1)) > 4
                            then rows ! (row t - 1) ! 4 else s_medium)"
proof
  fix t assume "t \<in> set ts"
  from read_task_from_row[OF disjI1[OF assms(1)] assms(2,3) this]
  have r: "2 \<le> row t" "row t \<le> length rows"
    "t = make_todo (row t) (rows ! (row t - 1))"
    by simp_all
  from r(3) have "priority t = priority (make_todo (row t) (rows ! (row t - 1)))" by simp
  then have "priority t = (if length (rows ! (row t - 1)) > 4
                           then rows ! (row t - 1) ! 4 else s_medium)"
    by (simp add: make_todo_def cell_def)
  with r show "2 \<le> row t \<and> row t \<le> length rows
           \<and> priority t = (if length (rows ! (row t - 1)) > 4
                            then rows ! (row t - 1) ! 4 else s_medium)"
    by simp
qed

theorem priority_cell_or_default_witness:
  "get_all_todos 0 (quiet_world (Some example_rows)) init_state
     = (Inr (build_todos 2 (tl example_rows)), quiet_world (Some example_rows), example_state)
   \<and> cache_consistent (quiet_world (Some example_rows)) init_state
   \<and> todos_sheet (quiet_world (Some example_rows)) = Some example_rows
   \<and> list_all
        (\<lambda>t. 2 \<le> row t \<and> row t \<le> length example_rows
           \<and> priority t = (if length (example_rows ! (row t - 1)) > 4
                            then example_rows ! (row t - 1) ! 4 else s_medium))
        (build_todos 2 (tl example_rows))"
proof -
  from priority_cell_or_default[OF example_read example_consistent example_sheet]
  have "list_all
        (\<lambda>t. 2 \<le> row t \<and> row t \<le> length example_rows
           \<and> priority t = (if length (example_rows ! (row t - 1)) > 4
                            then example_rows ! (row t - 1) ! 4 else s_medium))
        (build_todos 2 (tl example_rows))"
    unfolding list_all_iff .
  with example_read example_consistent example_sheet show ?thesis by (simp only:)
qed

section \<open>The status filters\<close>

text \<open>
  Claim C6: read from the same store and process state, the open and the completed lists
  are disjoint and together make up the list of the filter "all"; the completed list
  holds exactly the tasks whose status is "completed", and the open list holds the others.
\<close>

theorem status_filters_partition:
  assumes "get_all_todos_filtered (Some s_all) now w st = (Inr ts, w', st')"
  shows "\<exists>os cs.
           get_all_todos_filtered None now w st = (Inr os, w', st')
         \<and> get_all_todos_filtered (Some s_completed) now w st = (Inr cs, w', st')
         \<and> os = filter (\<lambda>t. status t \<noteq> s_completed) ts
         \<and> cs = filter (\<lambda>t. status t = s_completed) ts
         \<and> set os \<inter> set cs = {}
         \<and> set os \<union> set cs = set ts"
proof -
  have ne: "s_all \<noteq> s_completed" by (simp add: s_all_def s_completed_def)
  have c0: "s_completed \<noteq> []" by (simp add: s_completed_def)
  from assms ne have g: "get_all_todos now w st = (Inr ts, w', st')"
    by (auto simp: get_all_todos_filtered_def filter_status_def
        split: prod.splits sum.splits)
  have o: "filter_status None ts = filter (\<lambda>t. status t \<noteq> s_completed) ts"
    unfolding filter_status_def using c0 by (auto intro: filter_cong)
  have c: "filter_status (Some s_completed) ts = filter (\<lambda>t. status t = s_completed) ts"
    by (simp add: filter_status_def)
  from g o c show ?thesis
    by (auto simp: get_all_todos_filtered_def)
qed

theorem status_filters_partition_witness:
  "get_all_todos_filtered (Some s_all) 0 (quiet_world (Some example_rows)) init_state
     = (Inr (build_todos 2 (tl example_rows)), quiet_world (Some example_rows), example_state)
   \<and> get_all_todos_filtered None 0 (quiet_world (Some example_rows)) init_state
       = (Inr (filter (\<lambda>t. status t \<noteq> s_completed) (build_todos 2 (tl example_rows))),
          quiet_world (Some example_rows), example_state)
   \<and> get_all_todos_filtered (Some s_completed) 0 (quiet_world (Some example_rows)) init_state
       = (Inr (filter (\<lambda>t. status t = s_completed) (build_todos 2 (tl example_rows))),
          quiet_world (Some example_rows), example_state)
   \<and> set (filter (\<lambda>t. status t \<noteq> s_completed) (build_todos 2 (tl example_rows)))
       \<inter> set (filter (\<lambda>t. status t = s_completed) (build_todos 2 (tl example_rows))) = {}
   \<and> set (filter (\<lambda>t. status t \<noteq> s_completed) (build_todos 2 (tl example_rows)))
       \<union> set (filter (\<lambda>t. status t = s_completed) (build_todos 2 (tl example_rows)))
       = set (build_todos 2 (tl example_rows))
   \<and> map row (filter (\<lambda>t. status t \<noteq> s_completed) (build_todos 2 (tl example_rows))) = [2, 5]
   \<and> map row (filter (\<lambda>t. status t = s_completed) (build_todos 2 (tl example_rows))) = [4]"
proof -
  have ro: "map row (filter (\<lambda>t. status t \<noteq> s_completed) (build_todos 2 (tl example_rows))) = [2, 5]"
    by (simp add: example_rows_def string_defs make_todo_def cell_def)
  have rc: "map row (filter (\<lambda>t. status t = s_completed) (build_todos 2 (tl example_rows))) = [4]"
    by (simp add: example_rows_def string_defs make_todo_def cell_def)
  from status_filters_partition[OF example_read_all] have
    "get_all_todos_filtered None 0 (quiet_world (Some example_rows)) init_state
       = (Inr (filter (\<lambda>t. status t \<noteq> s_completed) (build_todos 2 (tl example_rows))),
          quiet_world (Some example_rows), example_state)
   \<and> get_all_todos_filtered (Some s_completed) 0 (quiet_world (Some example_rows)) init_state
       = (Inr (filter (\<lambda>t. status t = s_completed) (build_todos 2 (tl example_rows))),
          quiet_world (Some example_rows), example_state)
   \<and> set (filter (\<lambda>t. status t \<noteq> s_completed) (build_todos 2 (tl example_rows)))
       \<inter> set (filter (\<lambda>t. status t = s_completed) (build_todos 2 (tl example_rows))) = {}
   \<and> set (filter (\<lambda>t. status t \<noteq> s_completed) (build_todos 2 (tl example_rows)))
       \<union> set (filter (\<lambda>t. status t = s_completed) (build_todos 2 (tl example_rows)))
       = set (build_todos 2 (tl example_rows))"
    by (elim exE conjE) (simp only:)
  with example_read_all ro rc show ?thesis by (simp only:)
qed

section \<open>Failures while reading\<close>

text \<open>
  Claim C8 says that \<open>get_all_todos\<close> propagates no failure of a read, that of the
  store-resolution step included. The call of \<open>get_or_create_spreadsheet\<close> stands before
  the \<open>try\<close>: without a configured identifier the configuration error leaves
  \<open>get_all_todos\<close>, and nothing is printed.
\<close>

theorem resolution_failure_propagates:
  "get_all_todos 0 unconfigured_world init_state
     = (Inl ConfigError, unconfigured_world, init_state\<lparr>sheets_client := True\<rparr>)"
  by (simp add: eval_defs)

text \<open>
  Claim C8, amended: when the cache is not fresh and store resolution succeeds, an
  \<open>IndexError\<close> or \<open>APIError\<close> raised by fetching the rows is not propagated:
  \<open>get_all_todos\<close> prints a warning and returns the empty list. The errors that do leave
  \<open>get_all_todos\<close> are exactly the errors of store resolution and the errors of the fetch
  other than those two.
\<close>

theorem read_failures:
  "(fst (get_all_todos now w st) = Inl e \<longleftrightarrow>
      \<not> cache_fresh now st
      \<and> (case get_or_create_spreadsheet w st of
           (Some e1, w1, st1) \<Rightarrow> e1 = e
         | (None, w1, st1) \<Rightarrow>
             fst (get_all_values w1) = Inl e \<and> e \<noteq> IndexError \<and> e \<noteq> APIError))
   \<and> (\<forall>w1 st1 w2 e2.
         \<not> cache_fresh now st
         \<and> get_or_create_spreadsheet w st = (None, w1, st1)
         \<and> get_all_values w1 = (Inl e2, w2)
         \<and> (e2 = IndexError \<or> e2 = APIError)
         \<longrightarrow> get_all_todos now w st = (Inr [], w2, st1\<lparr>printed := printed st1 @ [e2]\<rparr>))"
  by (auto simp: get_all_todos_def Let_def split: prod.splits option.splits sum.splits)

theorem read_failures_witness:
  "\<not> cache_fresh 0 (init_state :: vstate)
   \<and> get_or_create_spreadsheet flaky_world (init_state :: vstate)
       = (None, flaky_world\<lparr>pending_faults := [Some APIError]\<rparr>,
          init_state\<lparr>sheets_client := True, spreadsheet_cache := True,
                      worksheet_cache := True\<rparr>)
   \<and> get_all_values (flaky_world\<lparr>pending_faults := [Some APIError]\<rparr>)
       = (Inl APIError, flaky_world\<lparr>pending_faults := []\<rparr>)
   \<and> get_all_todos 0 flaky_world init_state
       = (Inr [], flaky_world\<lparr>pending_faults := []\<rparr>,
          init_state\<lparr>sheets_client := True, spreadsheet_cache := True,
                      worksheet_cache := True, printed := [APIError]\<rparr>)"
proof -
  have h1: "\<not> cache_fresh 0 (init_state :: vstate)"
    by (simp add: cache_fresh_def init_state_def)
  have h2: "get_or_create_spreadsheet flaky_world (init_state :: vstate)
       = (None, flaky_world\<lparr>pending_faults := [Some APIError]\<rparr>,
          init_state\<lparr>sheets_client := True, spreadsheet_cache := True,
                      worksheet_cache := True\<rparr>)"
    by (simp add: eval_defs)
  have h3: "get_all_values (flaky_world\<lparr>pending_faults := [Some APIError]\<rparr>)
       = (Inl APIError, flaky_world\<lparr>pending_faults := []\<rparr>)"
    by (simp add: eval_defs)
  note r = conjunct2[OF read_failures[of 0 flaky_world init_state APIError], rule_format,
      OF conjI[OF h1 conjI[OF h2 conjI[OF h3 disjI2[OF refl]]]]]
  from r have "get_all_todos 0 flaky_world init_state
       = (Inr [], flaky_world\<lparr>pending_faults := []\<rparr>,
          init_state\<lparr>sheets_client := True, spreadsheet_cache := True,
                      worksheet_cache := True, printed := [APIError]\<rparr>)"
    by (simp add: init_state_def)
  with h1 h2 h3 show ?thesis by simp
qed

section \<open>Schema resolution on any header\<close>


















section \<open>Schema resolution on a correct header\<close>









section \<open>The id of a new task\<close>

text \<open>
  Claim C1: existing ids that are not numeric are passed over when the new id is computed,
  and \<open>add_todo\<close> never raises on their account. On a worksheet whose only task has the id
  "abc" the list of tasks is not empty, the generator handed to \<open>max\<close> yields nothing, and
  \<open>add_todo\<close> raises \<open>ValueError\<close>.
\<close>

theorem add_todo_nonnumeric_ids_raises:
  "fst (add_todo ascii_ucd [110] [] [] s_medium [50] 0 (quiet_world (Some nonnumeric_rows)) init_state)
     = Inl ValueError
   \<and> \<not> isdigit ascii_ucd [97, 98, 99]"
  by (simp add: nonnumeric_rows_def eval_defs add_defs)

section \<open>The due-date sort\<close>

lemma sort_due: "sort_todos s_sort_due_date todos = sort_key (\<lambda>x. (due_or_sentinel x, priority_rank x)) todos"
  by (simp add: sort_todos_def s_sort_due_date_def s_sort_priority_def)

text \<open>
  Claim C10 says that the due-date sort breaks ties on the due date by priority
  descending, high first. The sort key is the pair of due date and priority rank and the
  sort is ascending in both: of two tasks due on the same day, the one of low priority
  comes before the one of high priority.
\<close>

theorem due_date_ties_low_first:
  "map priority (sort_todos s_sort_due_date tie_tasks) = [s_low, s_high]
   \<and> map due_date tie_tasks = [[50, 48, 50, 53, 45, 48, 49, 45, 49, 48], [50, 48, 50, 53, 45, 48, 49, 45, 49, 48]]
   \<and> map priority tie_tasks = [s_high, s_low]"
  unfolding sort_due tie_tasks_def
  by (simp add: due_or_sentinel_def priority_rank_def priority_order_def
      s_high_def s_low_def s_medium_def s_sentinel_def)

text \<open>
  Claim C10, amended: the due-date sort returns the same tasks, ordered by due date
  ascending with an empty due date counted as "9999-12-31" (so after a task without due
  date come only tasks without due date or with a due date not below that sentinel);
  ties on the due date are broken by priority ascending (low, then medium and unknown
  priorities, then high), and tasks with the same due date and priority rank keep their
  order.
\<close>

theorem due_date_sort:
  "mset (sort_todos s_sort_due_date todos) = mset todos
   \<and> sorted_wrt due_key_le (sort_todos s_sort_due_date todos)
   \<and> filter (\<lambda>x. (due_or_sentinel x, priority_rank x) = k) (sort_todos s_sort_due_date todos)
       = filter (\<lambda>x. (due_or_sentinel x, priority_rank x) = k) todos
   \<and> (\<forall>i j. i < j \<and> j < length todos \<and> due_date (sort_todos s_sort_due_date todos ! i) = []
         \<longrightarrow> due_date (sort_todos s_sort_due_date todos ! j) = []
             \<or> s_sentinel \<le> due_date (sort_todos s_sort_due_date todos ! j))"
proof -
  let ?f = "\<lambda>x. (due_or_sentinel x, priority_rank x)"
  let ?R = "sort_key ?f todos"
  have "sorted (map ?f ?R)" by (rule sorted_sort_key)
  then have "sorted_wrt (\<lambda>a b. ?f a \<le> ?f b) ?R"
    by (simp add: sorted_map)
  moreover have "?f a \<le> ?f b \<longrightarrow> due_key_le a b" for a b
    by (auto simp: due_key_le_def)
  ultimately have s: "sorted_wrt due_key_le ?R"
    using sorted_wrt_mono_rel[of ?R "\<lambda>a b. ?f a \<le> ?f b" due_key_le] by blast
  have st: "filter (\<lambda>x. ?f x = k) ?R = filter (\<lambda>x. ?f x = k) todos"
    by (rule sort_key_stable)
  have e: "due_date (?R ! j) = [] \<or> s_sentinel \<le> due_date (?R ! j)"
    if "i < j" "j < length todos" "due_date (?R ! i) = []" for i j
  proof -
    from that(1,2) s have "due_key_le (?R ! i) (?R ! j)"
      by (simp add: sorted_wrt_iff_nth_less)
    with that(3) have "s_sentinel \<le> due_or_sentinel (?R ! j)"
      by (auto simp: due_key_le_def due_or_sentinel_def)
    then show ?thesis by (auto simp: due_or_sentinel_def split: if_splits)
  qed
  from e have e': "\<forall>i j. i < j \<and> j < length todos \<and> due_date (?R ! i) = []
         \<longrightarrow> due_date (?R ! j) = [] \<or> s_sentinel \<le> due_date (?R ! j)"
    by blast
  from s st e' show ?thesis by (simp add: sort_due)
qed

theorem due_date_sort_witness:
  "map row (sort_todos s_sort_due_date dated_tasks) = [3, 4, 2]
   \<and> (1::nat) < 2 \<and> 2 < length dated_tasks
   \<and> due_date (sort_todos s_sort_due_date dated_tasks ! 1) = []
   \<and> (due_date (sort_todos s_sort_due_date dated_tasks ! 2) = []
        \<or> s_sentinel \<le> due_date (sort_todos s_sort_due_date dated_tasks ! 2))"
proof -
  have v: "sort_todos s_sort_due_date dated_tasks
             = [dated_tasks ! 1, dated_tasks ! 2, dated_tasks ! 0]"
    unfolding sort_due dated_tasks_def
    by (simp add: due_or_sentinel_def priority_rank_def priority_order_def
        s_high_def s_low_def s_medium_def s_sentinel_def)
  have h: "(1::nat) < 2 \<and> 2 < length dated_tasks
           \<and> due_date (sort_todos s_sort_due_date dated_tasks ! 1) = []"
    unfolding v by (simp add: dated_tasks_def)
  note r = conjunct2[OF conjunct2[OF conjunct2[OF due_date_sort[of dated_tasks]]],
      rule_format, OF h]
  have m: "map row (sort_todos s_sort_due_date dated_tasks) = [3, 4, 2]"
    unfolding v by (simp add: dated_tasks_def)
  from m h r show ?thesis by simp
qed

section \<open>Successive adds\<close>


























text \<open>Schema resolution and the fault schedule: when the worksheet gets its first row.\<close>

lemma header_at_risk_append: "header_at_risk fs \<Longrightarrow> header_at_risk (pre @ fs)"
  by (induction pre) simp_all




































text \<open>
  There is a second way for the ids to fall, which the amended claim below leaves out,
  neither promising nor denying it. When the fetch of the rows inside an add fails with
  \<open>IndexError\<close> or \<open>APIError\<close>, \<open>get_all_todos\<close> prints a warning and answers with the
  empty list; \<open>add_todo\<close> then takes the branch for a store without tasks and assigns
  "1", though the comment at line 271 announces the largest existing id plus one. Here
  the worksheet holds the id "5": the first add assigns "6", and the second, whose fetch
  fails, assigns "1".
\<close>

lemma swallowed_read_failure_restarts_ids:
  "assigned_ids (fst (run_adds ascii_ucd two_adds read_fault_world init_state)) = [[54], [49]]
   \<and> printed (snd (snd (run_adds ascii_ucd two_adds read_fault_world init_state))) = [APIError]"
  by (simp add: add_eval_defs str_nat.simps)

text \<open>
  The first add reads the tasks through the cache. While a cache filled before the store
  lost its rows is fresh, the add continues from the ids of the cached tasks: here the
  worksheet has the header row only, the cache holds the ids "abc", "7" and "8", and the
  add assigns "9".
\<close>

lemma stale_cache_first_add:
  "no_data_rows header_only_world
   \<and> cache_fresh 0 example_state
   \<and> fst (add_todo ascii_ucd [97] [] [] s_medium [50] 0 header_only_world example_state)
       = Inr \<lparr>added_id = [57], added_title = [97], added_content = [],
              added_due_date = [], added_priority = s_medium, added_created_at = [50]\<rparr>"
  by (simp add: no_data_rows_def header_only_world_def CACHE_DURATION_def add_eval_defs
      str_nat.simps)



section \<open>The cached list and its callers\<close>

lemmas heap_defs = empty_heap_def new_list_def new_dict_def list_items_def list_value_def
  list_copy_def get_all_todos_obj_def filter_refs_def get_all_todos_filtered_obj_def
  deref_def list_sort_obj_def dict_set_title_def sort_then_reread_def List.map_filter_def

lemmas heap_eval_defs = heap_defs retitle_then_reread_def eval_defs CACHE_DURATION_def
  due_or_sentinel_def priority_rank_def priority_order_def

text \<open>The heap model computes what the model over values computes.\<close>

lemma cache_fresh_abs: "cache_fresh now (abs_state h st) = cache_fresh now st"
  by (simp add: cache_fresh_def abs_state_def split: option.splits)

lemma abs_state_sel:
  "sheets_client (abs_state h st) = sheets_client st"
  "spreadsheet_cache (abs_state h st) = spreadsheet_cache st"
  "worksheet_cache (abs_state h st) = worksheet_cache st"
  "todos_cache (abs_state h st) = map_option (list_value h) (todos_cache st)"
  "cache_timestamp (abs_state h st) = cache_timestamp st"
  "printed (abs_state h st) = printed st"
  by (simp_all add: abs_state_def)

lemma abs_state_upd:
  "abs_state h (st\<lparr>sheets_client := a\<rparr>) = (abs_state h st)\<lparr>sheets_client := a\<rparr>"
  "abs_state h (st\<lparr>spreadsheet_cache := a, worksheet_cache := b\<rparr>)
     = (abs_state h st)\<lparr>spreadsheet_cache := a, worksheet_cache := b\<rparr>"
  "abs_state h (st\<lparr>printed := p\<rparr>) = (abs_state h st)\<lparr>printed := p\<rparr>"
  by (simp_all add: abs_state_def)

lemma get_sheets_client_abs:
  "get_sheets_client w (abs_state h st)
     = (case get_sheets_client w st of (e, st1) \<Rightarrow> (e, abs_state h st1))"
  by (simp add: get_sheets_client_def abs_state_sel abs_state_upd)

lemma get_or_create_abs_eq:
  "get_or_create_spreadsheet w (abs_state h st)
     = (case get_or_create_spreadsheet w st of (r, w1, st1) \<Rightarrow> (r, w1, abs_state h st1))"
proof -
  obtain e st1 where c: "get_sheets_client w st = (e, st1)"
    by (cases "get_sheets_client w st") auto
  obtain e2 w1 where o: "open_by_key w = (e2, w1)"
    by (cases "open_by_key w") auto
  obtain e3 w2 where k: "worksheet_or_create w1 = (e3, w2)"
    by (cases "worksheet_or_create w1") auto
  obtain e4 w3 where eh: "ensure_header w2 = (e4, w3)"
    by (cases "ensure_header w2") auto
  show ?thesis
    unfolding get_or_create_spreadsheet_def get_sheets_client_abs c o
    by (cases e; cases e2; cases e3; cases e4)
      (simp_all add: k eh abs_state_sel abs_state_upd)
qed

lemma get_sheets_client_cache:
  "get_sheets_client w st = (e, st1) \<Longrightarrow>
     todos_cache st1 = todos_cache st \<and> cache_timestamp st1 = cache_timestamp st"
  by (auto simp: get_sheets_client_def split: if_splits)

lemma get_or_create_cache:
  "get_or_create_spreadsheet w st = (r, w1, st1) \<Longrightarrow> todos_cache st1 = todos_cache st"
  unfolding get_or_create_spreadsheet_def
  by (auto split: if_splits prod.splits option.splits dest: get_sheets_client_cache)

lemma new_dicts_props:
  "new_dicts ts h = (ds, h1) \<Longrightarrow>
     List.map_filter (dict_objs h1) ds = ts
     \<and> next_ref h \<le> next_ref h1
     \<and> list_all (\<lambda>d. next_ref h \<le> d \<and> d < next_ref h1) ds
     \<and> list_objs h1 = list_objs h
     \<and> (\<forall>d<next_ref h. dict_objs h1 d = dict_objs h d)"
proof (induction ts arbitrary: h ds h1)
  case Nil
  then show ?case by (simp add: List.map_filter_def)
next
  case (Cons t ts)
  let ?h = "h\<lparr>dict_objs := (dict_objs h)(next_ref h := Some t), next_ref := Suc (next_ref h)\<rparr>"
  from Cons.prems obtain ds' where r: "new_dicts ts ?h = (ds', h1)" and ds: "ds = next_ref h # ds'"
    by (auto simp: new_dict_def split: prod.splits)
  from Cons.IH[OF r] have ih: "List.map_filter (dict_objs h1) ds' = ts"
    "Suc (next_ref h) \<le> next_ref h1"
    "list_all (\<lambda>d. Suc (next_ref h) \<le> d \<and> d < next_ref h1) ds'"
    "list_objs h1 = list_objs h"
    "\<forall>d<Suc (next_ref h). dict_objs h1 d = dict_objs ?h d"
    by simp_all
  from ih(5) have here: "dict_objs h1 (next_ref h) = Some t" by simp
  from ih(5) have old: "\<forall>d<next_ref h. dict_objs h1 d = dict_objs h d" by simp
  from ih(3) have "list_all (\<lambda>d. next_ref h \<le> d \<and> d < next_ref h1) ds'"
    by (auto simp: list_all_iff)
  with ih(1,2,4) here old ds show ?case
    by (simp add: List.map_filter_def)
qed

lemma map_filter_agree:
  "list_all (\<lambda>x. f x = g x) xs \<Longrightarrow> List.map_filter f xs = List.map_filter g xs"
  by (induction xs) (auto simp: map_filter_simps split: option.splits)

lemma list_value_preserved:
  assumes "r < n" and "list_all (\<lambda>d. d < n) (list_items h r)"
    and "\<forall>x<n. list_objs h1 x = list_objs h x" and "\<forall>d<n. dict_objs h1 d = dict_objs h d"
  shows "list_value h1 r = list_value h r \<and> list_items h1 r = list_items h r"
proof -
  from assms(1,3) have i: "list_items h1 r = list_items h r"
    by (simp add: list_items_def)
  from assms(2,4) have "list_all (\<lambda>d. dict_objs h1 d = dict_objs h d) (list_items h r)"
    by (auto simp: list_all_iff)
  then have "List.map_filter (dict_objs h1) (list_items h r)
             = List.map_filter (dict_objs h) (list_items h r)"
    by (rule map_filter_agree)
  with i show ?thesis by (simp add: list_value_def)
qed

lemma new_list_props:
  "new_list items h = (r, h1) \<Longrightarrow>
     r = next_ref h \<and> next_ref h1 = Suc (next_ref h) \<and> dict_objs h1 = dict_objs h
     \<and> list_items h1 r = items \<and> (\<forall>x<next_ref h. list_objs h1 x = list_objs h x)"
  by (auto simp: new_list_def list_items_def)

lemma abs_state_new_list:
  assumes "heap_ok h st" and "new_list items h = (r, h1)"
  shows "abs_state h1 st = abs_state h st \<and> heap_ok h1 st"
proof (cases "todos_cache st")
  case None
  then show ?thesis by (simp add: abs_state_def heap_ok_def)
next
  case (Some c)
  note p = new_list_props[OF assms(2)]
  from assms(1) Some have c: "c < next_ref h" "list_all (\<lambda>d. d < next_ref h) (list_items h c)"
    by (simp_all add: heap_ok_def)
  from p have "\<forall>x<next_ref h. list_objs h1 x = list_objs h x"
    "\<forall>d<next_ref h. dict_objs h1 d = dict_objs h d" by simp_all
  from list_value_preserved[OF c this]
  have v: "list_value h1 c = list_value h c" "list_items h1 c = list_items h c" by simp_all
  from c v p have "heap_ok h1 st"
    using Some by (auto simp: heap_ok_def list_all_iff)
  with v Some show ?thesis by (simp add: abs_state_def)
qed

lemma heap_ok_cache_eq: "todos_cache st1 = todos_cache st \<Longrightarrow> heap_ok h st1 = heap_ok h st"
  by (simp add: heap_ok_def)

lemma get_all_todos_obj_refines:
  assumes ok: "heap_ok h st" and run: "get_all_todos_obj now w st h = (res, w', st', h')"
  shows "get_all_todos now w (abs_state h st)
           = (map_sum id (list_value h') res, w', abs_state h' st')
         \<and> heap_ok h' st'"
proof (cases "cache_fresh now st")
  case True
  then obtain c where c: "todos_cache st = Some c"
    by (auto simp: cache_fresh_def split: option.splits)
  obtain r h1 where n: "new_list (list_items h c) h = (r, h1)"
    by (cases "new_list (list_items h c) h") auto
  from run True c n have res: "res = Inr r" "w' = w" "st' = st" "h' = h1"
    by (simp_all add: get_all_todos_obj_def list_copy_def)
  note p = new_list_props[OF n]
  from p have "list_value h1 r = list_value h c"
    by (auto simp: list_value_def)
  moreover note abs_state_new_list[OF ok n]
  ultimately show ?thesis
    using True c res by (simp add: get_all_todos_def cache_fresh_abs abs_state_sel)
next
  case False
  obtain r1 w1 st1 where g: "get_or_create_spreadsheet w st = (r1, w1, st1)"
    by (cases "get_or_create_spreadsheet w st") auto
  have ga: "get_or_create_spreadsheet w (abs_state h st) = (r1, w1, abs_state h st1)"
    by (simp add: get_or_create_abs_eq g)
  from ok heap_ok_cache_eq[OF get_or_create_cache[OF g]] have ok1: "heap_ok h st1" by simp
  show ?thesis
  proof (cases r1)
    case (Some e)
    with run False g have "res = Inl e" "w' = w1" "st' = st1" "h' = h"
      by (simp_all add: get_all_todos_obj_def)
    with Some False ga ok1 show ?thesis
      by (simp add: get_all_todos_def cache_fresh_abs)
  next
    case None
    obtain r2 w2 where v: "get_all_values w1 = (r2, w2)"
      by (cases "get_all_values w1") auto
    show ?thesis
    proof (cases r2)
      case (Inl e)
      show ?thesis
      proof (cases "e = IndexError \<or> e = APIError")
        case caught: True
        obtain r hn where n: "new_list [] h = (r, hn)" by (cases "new_list [] h") auto
        from run False g None v Inl caught n
        have res: "res = Inr r" "w' = w2" "st' = st1\<lparr>printed := printed st1 @ [e]\<rparr>" "h' = hn"
          by (auto simp: get_all_todos_obj_def)
        from new_list_props[OF n] have val: "list_value hn r = []"
          by (auto simp: list_value_def List.map_filter_def)
        have okp: "heap_ok h (st1\<lparr>printed := printed st1 @ [e]\<rparr>)"
          using ok1 by (simp add: heap_ok_def)
        from abs_state_new_list[OF okp n] val res False ga None v Inl caught
        show ?thesis
          by (auto simp: get_all_todos_def cache_fresh_abs abs_state_upd abs_state_sel)
      next
        case other: False
        with run False g None v Inl have "res = Inl e" "w' = w2" "st' = st1" "h' = h"
          by (auto simp: get_all_todos_obj_def)
        with other False ga None v Inl ok1 show ?thesis
          by (auto simp: get_all_todos_def cache_fresh_abs)
      qed
    next
      case (Inr all_values)
      show ?thesis
      proof (cases "all_values = [] \<or> length all_values \<le> 1")
        case short: True
        obtain r hn where n: "new_list [] h = (r, hn)" by (cases "new_list [] h") auto
        from run False g None v Inr short n
        have res: "res = Inr r" "w' = w2" "st' = st1" "h' = hn"
          by (auto simp: get_all_todos_obj_def)
        from new_list_props[OF n] have val: "list_value hn r = []"
          by (auto simp: list_value_def List.map_filter_def)
        from abs_state_new_list[OF ok1 n] val res False ga None v Inr short
        show ?thesis
          by (auto simp: get_all_todos_def cache_fresh_abs)
      next
        case long: False
        let ?ts = "build_todos 2 (tl all_values)"
        obtain ds h1 where d: "new_dicts ?ts h = (ds, h1)"
          by (cases "new_dicts ?ts h") auto
        obtain r h2 where n: "new_list ds h1 = (r, h2)" by (cases "new_list ds h1") auto
        from run False g None v Inr long d n
        have res: "res = Inr r" "w' = w2"
          "st' = st1\<lparr>todos_cache := Some r, cache_timestamp := Some now\<rparr>" "h' = h2"
          by (auto simp: get_all_todos_obj_def)
        note pd = new_dicts_props[OF d]
        note pn = new_list_props[OF n]
        from pd pn have val: "list_value h2 r = ?ts"
          by (auto simp: list_value_def)
        from pd pn have "heap_ok h2 (st1\<lparr>todos_cache := Some r, cache_timestamp := Some now\<rparr>)"
          by (auto simp: heap_ok_def list_all_iff)
        moreover have "abs_state h2 (st1\<lparr>todos_cache := Some r, cache_timestamp := Some now\<rparr>)
            = (abs_state h st1)\<lparr>todos_cache := Some ?ts, cache_timestamp := Some now\<rparr>"
          using val by (simp add: abs_state_def)
        ultimately show ?thesis
          using res val False ga None v Inr long
          by (simp add: get_all_todos_def cache_fresh_abs Let_def)
      qed
    qed
  qed
qed

text \<open>A fetch that fills the cache returns the very list it caches.\<close>

lemma fetch_returns_cache_object:
  assumes "get_all_todos_obj now w st h = (Inr r, w', st', h')" and "\<not> cache_fresh now st"
    and "todos_cache st' \<noteq> todos_cache st"
  shows "todos_cache st' = Some r"
proof -
  obtain r1 w1 st1 where g: "get_or_create_spreadsheet w st = (r1, w1, st1)"
    by (cases "get_or_create_spreadsheet w st") auto
  then have c: "todos_cache st1 = todos_cache st"
    by (auto simp: get_or_create_spreadsheet_def get_sheets_client_def
        split: if_splits prod.splits option.splits)
  from assms g c show ?thesis
    by (auto simp: get_all_todos_obj_def new_list_def
        split: if_splits prod.splits option.splits sum.splits)
qed

text \<open>A caller who sorts the copy it got from a warm cache leaves the cached order alone.\<close>

lemma warm_copy_protects_list:
  "map_option (\<lambda>(a, b). (map row a, map row b))
     (sort_then_reread s_sort_due_date 1 2 (quiet_world (Some example_rows)) warm_state warm_heap)
     = Some ([2, 4, 5], [2, 4, 5])"
  by (simp add: warm_state_def warm_heap_def heap_eval_defs)

text \<open>
  Claim C9: whatever a caller does to the list it got from \<open>get_all_todos\<close>, or to the
  tasks in it, a later cached read returns the data as they were. Two runs on the example
  worksheet show the cache changed. In a fresh process a read with the filter "all"
  returns the list that was just cached; sorted in place by due date, as \<open>index\<close> sorts
  it, it has the rows in the order 2, 5, 4, and a cached read one microsecond later
  returns them in that order instead of 2, 4, 5. With a warm cache a read returns a new
  list of the cached dictionaries; after the caller retitles the first task to "x", the
  next cached read returns the title "x" in place of "t".
\<close>

theorem caller_mutation_reaches_cache:
  "map_option (\<lambda>(a, b). (map row a, map row b))
     (sort_then_reread s_sort_due_date 0 1 (quiet_world (Some example_rows)) init_state empty_heap)
     = Some ([2, 4, 5], [2, 5, 4])
   \<and> map_option (\<lambda>(a, b). (map title a, map title b))
       (retitle_then_reread [120] 1 2 (quiet_world (Some example_rows)) warm_state warm_heap)
     = Some ([[116], [117], [118]], [[120], [117], [118]])"
  by (simp add: warm_state_def warm_heap_def heap_eval_defs)


end
